theory Spec2Isabelle
  imports Main "HOL-Library.AList"
begin

section \<open>Strings\<close>

text \<open>
  A Python \<open>str\<close> is modelled by the HOL \<open>string\<close> of its UTF-8 bytes. The model
  gives the ASCII characters the meaning Python gives them and treats every byte above
  127 as a character that is no letter, no digit and no white space and that
  \<open>lower\<close>, \<open>title\<close> and \<open>unicodedata.normalize\<close> leave alone, which is what
  Python does for a symbol such as the euro sign. Accented letters and the non-ASCII
  spaces are outside the model.
\<close>

definition is_space :: "char \<Rightarrow> bool" where
  \<comment> \<open>\<open>str.isspace\<close> and the regular expression \<open>\s\<close> on ASCII: 9 to 13, 28 to 32\<close>
  "is_space c = (of_char c \<in> {9, 10, 11, 12, 13, 28, 29, 30, 31, 32 :: nat})"

definition is_digit :: "char \<Rightarrow> bool" where
  "is_digit c = (c \<in> set ''0123456789'')"

definition is_lower :: "char \<Rightarrow> bool" where
  "is_lower c = (c \<in> set ''abcdefghijklmnopqrstuvwxyz'')"

definition is_upper :: "char \<Rightarrow> bool" where
  "is_upper c = (c \<in> set ''ABCDEFGHIJKLMNOPQRSTUVWXYZ'')"

definition strip :: "string \<Rightarrow> string" where
  \<comment> \<open>\<open>str.strip()\<close>\<close>
  "strip s = rev (dropWhile is_space (rev (dropWhile is_space s)))"

fun startswith :: "string \<Rightarrow> string \<Rightarrow> bool" where
  "startswith s [] = True"
| "startswith [] (k # ks) = False"
| "startswith (c # cs) (k # ks) = (c = k \<and> startswith cs ks)"

fun contains :: "string \<Rightarrow> string \<Rightarrow> bool" where
  \<comment> \<open>\<open>k in s\<close>\<close>
  "contains k [] = (k = [])"
| "contains k (c # cs) = (startswith (c # cs) k \<or> contains k cs)"

definition maybe_demojibake :: "string \<Rightarrow> string" where
  \<comment> \<open>The two markers of the source are U+00C3 U+0192 and U+00C3 U+201A. A string that
      holds one of them holds a character that \<open>latin-1\<close> cannot encode, so
      \<open>x.encode("latin-1")\<close> raises and the \<open>except\<close> branch returns \<open>x\<close>.\<close>
  "maybe_demojibake x =
     (if contains [CHR 0xC3, CHR 0x83, CHR 0xC6, CHR 0x92] x
         \<or> contains [CHR 0xC3, CHR 0x83, CHR 0xE2, CHR 0x80, CHR 0x9A] x
      then x else x)"

section \<open>City: signatures and display forms\<close>

datatype error = IndexError | KeyError

definition lower_char :: "char \<Rightarrow> char" where
  "lower_char c = (if is_upper c then char_of (of_char c + (32::nat)) else c)"

definition upper_char :: "char \<Rightarrow> char" where
  "upper_char c = (if is_lower c then char_of (of_char c - (32::nat)) else c)"

definition lower :: "string \<Rightarrow> string" where
  \<comment> \<open>\<open>str.lower()\<close>\<close>
  "lower s = map lower_char s"

fun title_from :: "bool \<Rightarrow> string \<Rightarrow> string" where
  \<comment> \<open>\<open>str.title()\<close>; the flag is CPython's \<open>previous_is_cased\<close>\<close>
  "title_from prev [] = []"
| "title_from prev (c # cs) =
     (if is_lower c then (if prev then c else upper_char c) # title_from True cs
      else if is_upper c then (if prev then lower_char c else c) # title_from True cs
      else c # title_from False cs)"

definition title :: "string \<Rightarrow> string" where
  "title s = title_from False s"

definition strip_accents :: "string \<Rightarrow> string" where
  \<comment> \<open>NFKD normalisation followed by the removal of combining marks changes no
      character of the model (see the section on strings).\<close>
  "strip_accents text = text"

fun sub_runs :: "(char \<Rightarrow> bool) \<Rightarrow> nat \<Rightarrow> string \<Rightarrow> string \<Rightarrow> string \<Rightarrow> string" where
  \<comment> \<open>\<open>re.sub\<close> of a pattern \<open>[class]{n,}\<close>: every maximal run of at least \<open>n\<close>
      characters of the class becomes \<open>rep\<close>; \<open>run\<close> is the run read so far\<close>
  "sub_runs P n rep run [] = (if run \<noteq> [] \<and> n \<le> length run then rep else run)"
| "sub_runs P n rep run (c # cs) =
     (if P c then sub_runs P n rep (run @ [c]) cs
      else (if run \<noteq> [] \<and> n \<le> length run then rep else run) @ c # sub_runs P n rep [] cs)"

definition basic_city_clean :: "string \<Rightarrow> string" where
  "basic_city_clean x =
     (let x = strip (lower (strip_accents x));
          x = sub_runs (\<lambda>c. c \<in> set ''_-.,/'') 1 '' '' [] x
      in sub_runs is_space 2 '' '' [] x)"

definition letters_only_signature :: "string \<Rightarrow> string" where
  "letters_only_signature x = filter is_lower x"

definition counter :: "'a list \<Rightarrow> ('a \<times> nat) list" where
  \<comment> \<open>\<open>Counter(cands).items()\<close>: the distinct elements in the order of their first
      occurrence, each with its count\<close>
  "counter cands = map (\<lambda>x. (x, count_list cands x)) (rev (remdups (rev cands)))"

fun max_count :: "'a \<times> nat \<Rightarrow> ('a \<times> nat) list \<Rightarrow> 'a \<times> nat" where
  \<comment> \<open>\<open>max(items, key=itemgetter(1))\<close>: the first item with the greatest count\<close>
  "max_count best [] = best"
| "max_count best (p # ps) = max_count (if snd best < snd p then p else best) ps"

definition most_common1 :: "'a list \<Rightarrow> error + 'a" where
  \<comment> \<open>\<open>Counter(cands).most_common(1)[0][0]\<close>\<close>
  "most_common1 cands =
     (case counter cands of [] \<Rightarrow> Inl IndexError | p # ps \<Rightarrow> Inr (fst (max_count p ps)))"

definition choose_display_form :: "string list \<Rightarrow> error + string" where
  "choose_display_form cands =
     (case most_common1 cands of
        Inl e \<Rightarrow> Inl e
      | Inr t \<Rightarrow> Inr (if list_ex is_upper t then t else title t))"

section \<open>City: approximate matching (difflib)\<close>

text \<open>
  \<open>difflib.SequenceMatcher\<close> and \<open>difflib.get_close_matches\<close> of CPython 3.11,
  called with \<open>isjunk=None\<close> and \<open>autojunk=True\<close>. A ratio \<open>2.0 * matches / length\<close>
  is kept as the pair of its numerator and denominator and compared by cross
  multiplication; the floating-point quotient of two integers below \<open>2^26\<close> orders the
  same way. The cutoff \<open>0.92\<close> is the pair \<open>(23, 25)\<close>.
\<close>

type_synonym ratio = "nat \<times> nat"

definition calculate_ratio :: "nat \<Rightarrow> nat \<Rightarrow> ratio" where
  "calculate_ratio matches len = (if len \<noteq> 0 then (2 * matches, len) else (1, 1))"

definition ratio_le :: "ratio \<Rightarrow> ratio \<Rightarrow> bool" where
  "ratio_le r s = (fst r * snd s \<le> fst s * snd r)"

definition ratio_less :: "ratio \<Rightarrow> ratio \<Rightarrow> bool" where
  "ratio_less r s = (fst r * snd s < fst s * snd r)"

definition b2j :: "string \<Rightarrow> char \<Rightarrow> nat list" where
  \<comment> \<open>the indices of \<open>elt\<close> in \<open>b\<close>, or nothing for a popular element\<close>
  "b2j b elt =
     (if 200 \<le> length b \<and> length b div 100 + 1 < count_list b elt then []
      else filter (\<lambda>j. b ! j = elt) [0..<length b])"

definition j2len_get :: "(nat \<times> nat) list \<Rightarrow> nat \<Rightarrow> nat" where
  \<comment> \<open>\<open>j2len.get(j - 1, 0)\<close>, as a function of \<open>j\<close>\<close>
  "j2len_get j2len j =
     (if j = 0 then 0 else case map_of j2len (j - 1) of None \<Rightarrow> 0 | Some k \<Rightarrow> k)"

definition flm_inner ::
  "(nat \<times> nat) list \<Rightarrow> nat \<Rightarrow> nat \<Rightarrow>
   (nat \<times> nat) list \<times> nat \<times> nat \<times> nat \<Rightarrow> (nat \<times> nat) list \<times> nat \<times> nat \<times> nat" where
  \<comment> \<open>the body of the loop over \<open>j\<close>\<close>
  "flm_inner j2len i j st =
     (case st of (newj2len, besti, bestj, bestsize) \<Rightarrow>
        let k = j2len_get j2len j + 1
        in ((j, k) # newj2len,
            if bestsize < k then (i + 1 - k, j + 1 - k, k) else (besti, bestj, bestsize)))"

definition flm_outer ::
  "string \<Rightarrow> string \<Rightarrow> nat \<Rightarrow> nat \<Rightarrow> nat \<Rightarrow>
   (nat \<times> nat) list \<times> nat \<times> nat \<times> nat \<Rightarrow> (nat \<times> nat) list \<times> nat \<times> nat \<times> nat" where
  \<comment> \<open>the body of the loop over \<open>i\<close>; the state is \<open>(j2len, besti, bestj, bestsize)\<close>\<close>
  "flm_outer a b blo bhi i st =
     (case st of (j2len, best) \<Rightarrow>
        fold (flm_inner j2len i) (filter (\<lambda>j. blo \<le> j \<and> j < bhi) (b2j b (a ! i))) ([], best))"

definition common_prefix_len :: "string \<Rightarrow> string \<Rightarrow> nat" where
  "common_prefix_len xs ys = length (takeWhile (\<lambda>(x, y). x = y) (zip xs ys))"

definition find_longest_match :: "string \<Rightarrow> string \<Rightarrow> nat \<Rightarrow> nat \<Rightarrow> nat \<Rightarrow> nat \<Rightarrow> nat \<times> nat \<times> nat" where
  \<comment> \<open>No element is junk, so of the four \<open>while\<close> loops that extend the match only the
      first two can run: to the left while the elements before it agree, then to the right.\<close>
  "find_longest_match a b alo ahi blo bhi =
     (case fold (flm_outer a b blo bhi) [alo..<ahi] ([], alo, blo, 0) of
        (j2len, besti, bestj, bestsize) \<Rightarrow>
          let l = common_prefix_len (rev (drop alo (take besti a))) (rev (drop blo (take bestj b)));
              besti = besti - l; bestj = bestj - l; bestsize = bestsize + l;
              r = common_prefix_len (drop (besti + bestsize) (take ahi a))
                    (drop (bestj + bestsize) (take bhi b))
          in (besti, bestj, bestsize + r))"

section \<open>Phone\<close>

definition COUNTRY_DIAL :: "(string \<times> string) list" where
  "COUNTRY_DIAL =
     [(''Sweden'', ''+46''), (''Germany'', ''+49''), (''France'', ''+33''),
      (''Italy'', ''+39''), (''USA'', ''+1''), (''Japan'', ''+81''),
      (''Thailand'', ''+66''), (''Brazil'', ''+55''), (''Switzerland'', ''+41''),
      (''South Africa'', ''+27'')]"

definition phone_normalize :: "string \<Rightarrow> string" where
  \<comment> \<open>the four rewriting steps of \<open>clean_phone\<close> before \<open>fmt\<close>\<close>
  "phone_normalize phone =
     (let p = strip (maybe_demojibake phone);
          p = filter (\<lambda>c. \<not> (is_space c \<or> c \<in> set ''()-./'')) p;
          p = (if startswith p ''00'' then ''+'' @ drop 2 p else p);
          p = filter (\<lambda>c. is_digit c \<or> c = CHR ''+'') p
      in if count_list p (CHR ''+'') \<le> 1 then p
         else ''+'' @ filter is_digit (rev (takeWhile (\<lambda>c. c \<noteq> CHR ''+'') (rev p))))"

definition fmt_phone :: "string \<Rightarrow> string \<Rightarrow> string option" where
  \<comment> \<open>the inner \<open>fmt\<close>; \<open>None\<close> is \<open>pd.NA\<close>\<close>
  "fmt_phone raw cntry =
     (if raw = [] then None
      else
        let digits = filter is_digit raw in
        case map_of COUNTRY_DIAL cntry of
          Some code \<Rightarrow>
            (let cc = dropWhile (\<lambda>c. c = CHR ''+'') code;
                 rest = (if startswith digits cc then drop (length cc) digits else digits)
             in if rest = [] then None else Some (''(+'' @ cc @ '') '' @ rest))
        | None \<Rightarrow>
            (if 2 \<le> length digits
             then let k = min 3 (length digits - 1)
                  in Some (''(+'' @ take k digits @ '') '' @ drop k digits)
             else Some raw))"

definition clean_phone :: "string \<Rightarrow> string \<Rightarrow> string option" where
  \<comment> \<open>one row of \<open>clean_phone\<close>: the phone cell and the country cell\<close>
  "clean_phone phone country =
     (case fmt_phone (phone_normalize phone) country of
        None \<Rightarrow> None
      | Some cleaned \<Rightarrow>
          (let n = length (filter is_digit cleaned)
           in if 7 \<le> n \<and> n \<le> 15 then Some cleaned else None))"

section \<open>Results\<close>

text \<open>
  C7, as amended. For country Sweden and phone \<open>08-123 456\<close> the digits are
  \<open>08123456\<close>; they do not start with the dial code \<open>46\<close>, so nothing is stripped and
  the result is \<open>(+46) 08123456\<close>, with the leading zero kept.
\<close>

theorem C7_clean_phone_sweden:
  "clean_phone ''08-123 456'' ''Sweden'' = Some ''(+46) 08123456''"
  by (simp add: clean_phone_def fmt_phone_def phone_normalize_def COUNTRY_DIAL_def
      maybe_demojibake_def strip_def is_space_def is_digit_def Let_def)

text \<open>
  C7, as the specification states it: the result would be \<open>(+46) 8123456\<close>. It is not.
\<close>

theorem C7_counterexample:
  "clean_phone ''08-123 456'' ''Sweden'' \<noteq> Some ''(+46) 8123456''"
  by (simp add: clean_phone_def fmt_phone_def phone_normalize_def COUNTRY_DIAL_def
      maybe_demojibake_def strip_def is_space_def is_digit_def Let_def)

end
